theory Spec2Isabelle
  imports Complex_Main "HOL-Library.Word"
begin

section \<open>JavaScript numbers\<close>

text \<open>
  Every quantity of the ray tracer is a JavaScript number. The model keeps the four kinds
  of value a number can be: a finite value, \<open>Infinity\<close>, \<open>-Infinity\<close> and \<open>NaN\<close>. The
  arithmetic on them follows IEEE 754 as ECMAScript prescribes it, with two idealisations:
  a finite result is the exact real result (no rounding, no overflow or underflow), and
  the two zeros are one value. The second matters only for a division by a negative zero
  and for \<open>Math.pow\<close> on a negative zero; every divisor of the program is a canvas
  dimension, a sum of squares or a product of square roots and every base handed to
  \<open>Math.pow\<close> is a positive number over such a product, none of which is a negative zero.
  The first is lifted in the section on double arithmetic, where every operation rounds
  its result to a double; the intersection of a ray and a sphere, whose result depends
  on underflow, is stated there.
\<close>

datatype jsnum = Fin real | PInf | NInf | NaN

instantiation jsnum :: "{zero, one, plus, uminus, minus, times, inverse, ord}"
begin

definition zero_jsnum :: jsnum where
  "zero_jsnum = Fin 0"

definition one_jsnum :: jsnum where
  "one_jsnum = Fin 1"

fun plus_jsnum :: "jsnum \<Rightarrow> jsnum \<Rightarrow> jsnum" where
  "plus_jsnum (Fin a) (Fin b) = Fin (a + b)"
| "plus_jsnum NaN _ = NaN"
| "plus_jsnum _ NaN = NaN"
| "plus_jsnum PInf NInf = NaN"
| "plus_jsnum NInf PInf = NaN"
| "plus_jsnum PInf _ = PInf"
| "plus_jsnum _ PInf = PInf"
| "plus_jsnum NInf _ = NInf"
| "plus_jsnum _ NInf = NInf"

fun uminus_jsnum :: "jsnum \<Rightarrow> jsnum" where
  "uminus_jsnum (Fin a) = Fin (- a)"
| "uminus_jsnum PInf = NInf"
| "uminus_jsnum NInf = PInf"
| "uminus_jsnum NaN = NaN"

definition minus_jsnum :: "jsnum \<Rightarrow> jsnum \<Rightarrow> jsnum" where
  "minus_jsnum a b = a + (- b)"

fun times_jsnum :: "jsnum \<Rightarrow> jsnum \<Rightarrow> jsnum" where
  "times_jsnum (Fin a) (Fin b) = Fin (a * b)"
| "times_jsnum NaN _ = NaN"
| "times_jsnum _ NaN = NaN"
| "times_jsnum PInf (Fin b) = (if b = 0 then NaN else if 0 < b then PInf else NInf)"
| "times_jsnum NInf (Fin b) = (if b = 0 then NaN else if 0 < b then NInf else PInf)"
| "times_jsnum (Fin a) PInf = (if a = 0 then NaN else if 0 < a then PInf else NInf)"
| "times_jsnum (Fin a) NInf = (if a = 0 then NaN else if 0 < a then NInf else PInf)"
| "times_jsnum PInf PInf = PInf"
| "times_jsnum PInf NInf = NInf"
| "times_jsnum NInf PInf = NInf"
| "times_jsnum NInf NInf = PInf"

text \<open>A finite number over zero is an infinity of the sign of the dividend, and zero
  over zero is \<open>NaN\<close>: no division raises.\<close>

fun divide_jsnum :: "jsnum \<Rightarrow> jsnum \<Rightarrow> jsnum" where
  "divide_jsnum (Fin a) (Fin b) =
     (if b \<noteq> 0 then Fin (a / b) else if 0 < a then PInf else if a < 0 then NInf else NaN)"
| "divide_jsnum NaN _ = NaN"
| "divide_jsnum _ NaN = NaN"
| "divide_jsnum (Fin a) PInf = Fin 0"
| "divide_jsnum (Fin a) NInf = Fin 0"
| "divide_jsnum PInf (Fin b) = (if 0 \<le> b then PInf else NInf)"
| "divide_jsnum NInf (Fin b) = (if 0 \<le> b then NInf else PInf)"
| "divide_jsnum PInf PInf = NaN"
| "divide_jsnum PInf NInf = NaN"
| "divide_jsnum NInf PInf = NaN"
| "divide_jsnum NInf NInf = NaN"

definition inverse_jsnum :: "jsnum \<Rightarrow> jsnum" where
  "inverse_jsnum a = divide (Fin 1) a"

text \<open>The comparisons \<open><\<close> and \<open><=\<close> of JavaScript: false whenever an operand is
  \<open>NaN\<close>. The source's \<open>a >= b\<close> is \<open>b \<le> a\<close> and its \<open>a > b\<close> is \<open>b < a\<close>.\<close>

fun less_jsnum :: "jsnum \<Rightarrow> jsnum \<Rightarrow> bool" where
  "less_jsnum (Fin a) (Fin b) = (a < b)"
| "less_jsnum NaN _ = False"
| "less_jsnum _ NaN = False"
| "less_jsnum _ NInf = False"
| "less_jsnum PInf _ = False"
| "less_jsnum NInf _ = True"
| "less_jsnum _ PInf = True"

fun less_eq_jsnum :: "jsnum \<Rightarrow> jsnum \<Rightarrow> bool" where
  "less_eq_jsnum (Fin a) (Fin b) = (a \<le> b)"
| "less_eq_jsnum NaN _ = False"
| "less_eq_jsnum _ NaN = False"
| "less_eq_jsnum NInf _ = True"
| "less_eq_jsnum _ PInf = True"
| "less_eq_jsnum PInf _ = False"
| "less_eq_jsnum _ NInf = False"

instance ..

end

text \<open>\<open>Math.sqrt\<close> and \<open>Math.pow\<close> (ECMAScript, Number::exponentiate).\<close>

fun Math_sqrt :: "jsnum \<Rightarrow> jsnum" where
  "Math_sqrt (Fin a) = (if a < 0 then NaN else Fin (sqrt a))"
| "Math_sqrt PInf = PInf"
| "Math_sqrt NInf = NaN"
| "Math_sqrt NaN = NaN"

definition is_odd_integer :: "real \<Rightarrow> bool" where
  "is_odd_integer e = (e = of_int \<lfloor>e\<rfloor> \<and> odd \<lfloor>e\<rfloor>)"

fun Math_pow :: "jsnum \<Rightarrow> jsnum \<Rightarrow> jsnum" where
  "Math_pow _ NaN = NaN"
| "Math_pow NaN (Fin e) = (if e = 0 then Fin 1 else NaN)"
| "Math_pow NaN _ = NaN"
| "Math_pow PInf (Fin e) = (if e = 0 then Fin 1 else if 0 < e then PInf else Fin 0)"
| "Math_pow PInf PInf = PInf"
| "Math_pow PInf NInf = Fin 0"
| "Math_pow NInf (Fin e) =
     (if e = 0 then Fin 1
      else if 0 < e then (if is_odd_integer e then NInf else PInf)
      else Fin 0)"
| "Math_pow NInf PInf = PInf"
| "Math_pow NInf NInf = Fin 0"
| "Math_pow (Fin b) PInf =
     (if 1 < \<bar>b\<bar> then PInf else if \<bar>b\<bar> = 1 then NaN else Fin 0)"
| "Math_pow (Fin b) NInf =
     (if 1 < \<bar>b\<bar> then Fin 0 else if \<bar>b\<bar> = 1 then NaN else PInf)"
| "Math_pow (Fin b) (Fin e) =
     (if e = 0 then Fin 1
      else if b = 0 then (if 0 < e then Fin 0 else PInf)
      else if 0 < b then Fin (b powr e)
      else if e = of_int \<lfloor>e\<rfloor> then Fin (b powi \<lfloor>e\<rfloor>)
      else NaN)"

section \<open>Vectors, colours and the scene\<close>

text \<open>
  The object literals of the source are records. The fields \<open>x\<close>, \<open>y\<close>, \<open>z\<close> of a vector
  are \<open>vx\<close>, \<open>vy\<close>, \<open>vz\<close> here and the fields \<open>r\<close>, \<open>g\<close>, \<open>b\<close> of a colour are
  \<open>cr\<close>, \<open>cg\<close>, \<open>cb\<close>; the helpers \<open>length\<close> and \<open>divide\<close> are \<open>length_vec\<close> and
  \<open>divide_vec\<close>, and a ray origin, \<open>O\<close> in the source, is \<open>Org\<close>. The source reads the
  globals \<open>scene\<close> and \<open>canvas\<close>; the functions of the model take them as their first
  argument.
\<close>

record vec =
  vx :: jsnum
  vy :: jsnum
  vz :: jsnum

record color =
  cr :: jsnum
  cg :: jsnum
  cb :: jsnum

record sphere =
  center :: vec
  radius :: jsnum
  color :: color
  specular :: jsnum

text \<open>A light is the object \<open>{type, intensity, position | direction}\<close>; the three
  values of \<open>type\<close> are the three constructors.\<close>

datatype light =
    Ambient (intensity: jsnum)
  | Point (intensity: jsnum) (position: vec)
  | Directional (intensity: jsnum) (direction: vec)

record scene =
  spheres :: "sphere list"
  lights :: "light list"

subsection \<open>Vector math helpers\<close>

definition dot :: "vec \<Rightarrow> vec \<Rightarrow> jsnum" where
  "dot a b = vx a * vx b + vy a * vy b + vz a * vz b"

definition subtract :: "vec \<Rightarrow> vec \<Rightarrow> vec" where
  "subtract a b = \<lparr>vx = vx a - vx b, vy = vy a - vy b, vz = vz a - vz b\<rparr>"

definition add :: "vec \<Rightarrow> vec \<Rightarrow> vec" where
  "add a b = \<lparr>vx = vx a + vx b, vy = vy a + vy b, vz = vz a + vz b\<rparr>"

definition multiply :: "vec \<Rightarrow> jsnum \<Rightarrow> vec" where
  "multiply v scalar = \<lparr>vx = vx v * scalar, vy = vy v * scalar, vz = vz v * scalar\<rparr>"

definition divide_vec :: "vec \<Rightarrow> jsnum \<Rightarrow> vec" where
  "divide_vec v scalar = \<lparr>vx = vx v / scalar, vy = vy v / scalar, vz = vz v / scalar\<rparr>"

definition length_vec :: "vec \<Rightarrow> jsnum" where
  "length_vec v = Math_sqrt (vx v * vx v + vy v * vy v + vz v * vz v)"

section \<open>Ray-sphere intersection\<close>

definition IntersectRaySphere :: "vec \<Rightarrow> vec \<Rightarrow> sphere \<Rightarrow> jsnum \<times> jsnum" where
  "IntersectRaySphere Org D sphere =
     (let CO = subtract Org (center sphere);
          a = dot D D;
          b = Fin 2 * dot CO D;
          c = dot CO CO - radius sphere * radius sphere;
          discriminant = b * b - Fin 4 * a * c
      in if discriminant < Fin 0 then (PInf, PInf)
         else let sqrtD = Math_sqrt discriminant;
                  t1 = (- b + sqrtD) / (Fin 2 * a);
                  t2 = (- b - sqrtD) / (Fin 2 * a)
              in (t1, t2))"

section \<open>Lighting\<close>

text \<open>The part of the loop body of \<open>ComputeLighting\<close> that follows the choice of \<open>L\<close>:
  the diffuse and the specular contribution of one point or directional light, added to
  the accumulator \<open>i\<close>.\<close>

definition ComputeLighting_body ::
  "vec \<Rightarrow> vec \<Rightarrow> jsnum \<Rightarrow> jsnum \<Rightarrow> vec \<Rightarrow> jsnum \<Rightarrow> jsnum" where
  "ComputeLighting_body N V s k L i =
     (let n_dot_l = dot N L;
          i1 = (if Fin 0 < n_dot_l
                then i + k * (n_dot_l / (length_vec N * length_vec L)) else i)
      in if s \<noteq> Fin (- 1)
         then (let R = subtract (multiply N (Fin 2 * dot N L)) L;
                   r_dot_v = dot R V
               in if Fin 0 < r_dot_v
                  then i1 + k * Math_pow (r_dot_v / (length_vec R * length_vec V)) s
                  else i1)
         else i1)"

fun ComputeLighting_loop ::
  "vec \<Rightarrow> vec \<Rightarrow> vec \<Rightarrow> jsnum \<Rightarrow> light list \<Rightarrow> jsnum \<Rightarrow> jsnum" where
  "ComputeLighting_loop P N V s [] i = i"
| "ComputeLighting_loop P N V s (Ambient k # rest) i =
     ComputeLighting_loop P N V s rest (i + k)"
| "ComputeLighting_loop P N V s (Point k pos # rest) i =
     ComputeLighting_loop P N V s rest (ComputeLighting_body N V s k (subtract pos P) i)"
| "ComputeLighting_loop P N V s (Directional k dir # rest) i =
     ComputeLighting_loop P N V s rest (ComputeLighting_body N V s k dir i)"

definition ComputeLighting :: "scene \<Rightarrow> vec \<Rightarrow> vec \<Rightarrow> vec \<Rightarrow> jsnum \<Rightarrow> jsnum" where
  "ComputeLighting sc P N V s = ComputeLighting_loop P N V s (lights sc) (Fin 0)"

section \<open>Tracing one ray\<close>

text \<open>The loop over \<open>scene.spheres\<close>, on the pair \<open>(closest_t, closest_sphere)\<close>;
  \<open>null\<close> is \<open>None\<close>.\<close>

definition TraceRay_step ::
  "vec \<Rightarrow> vec \<Rightarrow> jsnum \<Rightarrow> jsnum \<Rightarrow> sphere \<Rightarrow> jsnum \<times> sphere option
     \<Rightarrow> jsnum \<times> sphere option" where
  "TraceRay_step Org D t_min t_max sphere st =
     (let (t1, t2) = IntersectRaySphere Org D sphere;
          st1 = (if t_min \<le> t1 \<and> t1 \<le> t_max \<and> t1 < fst st then (t1, Some sphere) else st)
      in if t_min \<le> t2 \<and> t2 \<le> t_max \<and> t2 < fst st1 then (t2, Some sphere) else st1)"

fun TraceRay_loop ::
  "vec \<Rightarrow> vec \<Rightarrow> jsnum \<Rightarrow> jsnum \<Rightarrow> sphere list \<Rightarrow> jsnum \<times> sphere option
     \<Rightarrow> jsnum \<times> sphere option" where
  "TraceRay_loop Org D t_min t_max [] st = st"
| "TraceRay_loop Org D t_min t_max (sphere # rest) st =
     TraceRay_loop Org D t_min t_max rest (TraceRay_step Org D t_min t_max sphere st)"

definition BACKGROUND_COLOR :: color where
  "BACKGROUND_COLOR = \<lparr>cr = Fin 255, cg = Fin 255, cb = Fin 255\<rparr>"

definition TraceRay :: "scene \<Rightarrow> vec \<Rightarrow> vec \<Rightarrow> jsnum \<Rightarrow> jsnum \<Rightarrow> color" where
  "TraceRay sc Org D t_min t_max =
     (case TraceRay_loop Org D t_min t_max (spheres sc) (PInf, None) of
        (closest_t, None) \<Rightarrow> BACKGROUND_COLOR
      | (closest_t, Some closest_sphere) \<Rightarrow>
          (let P = add Org (multiply D closest_t);
               N0 = subtract P (center closest_sphere);
               N = divide_vec N0 (length_vec N0);
               V = multiply D (Fin (- 1));
               lighting = ComputeLighting sc P N V (specular closest_sphere)
           in \<lparr>cr = cr (color closest_sphere) * lighting,
               cg = cg (color closest_sphere) * lighting,
               cb = cb (color closest_sphere) * lighting\<rparr>))"

text \<open>The second source file is the same renderer before lighting was added: its
  \<open>TraceRay\<close> runs the same loop and returns the colour of the closest sphere as it is,
  and its background is black.\<close>

definition BACKGROUND_COLOR_part_000 :: color where
  "BACKGROUND_COLOR_part_000 = \<lparr>cr = Fin 0, cg = Fin 0, cb = Fin 0\<rparr>"

definition TraceRay_part_000 :: "scene \<Rightarrow> vec \<Rightarrow> vec \<Rightarrow> jsnum \<Rightarrow> jsnum \<Rightarrow> color" where
  "TraceRay_part_000 sc Org D t_min t_max =
     (case TraceRay_loop Org D t_min t_max (spheres sc) (PInf, None) of
        (closest_t, None) \<Rightarrow> BACKGROUND_COLOR_part_000
      | (closest_t, Some closest_sphere) \<Rightarrow> color closest_sphere)"

section \<open>Canvas, projection and pixel writes\<close>

text \<open>The canvas gives the two raster dimensions, unsigned integers of the DOM; the
  pixel buffer \<open>imgData.data\<close> is a \<open>Uint8ClampedArray\<close>.\<close>

record canvas =
  width :: nat
  height :: nat

definition Cw :: "canvas \<Rightarrow> jsnum" where
  "Cw cv = Fin (real (width cv))"

definition Ch :: "canvas \<Rightarrow> jsnum" where
  "Ch cv = Fin (real (height cv))"

definition Vw :: jsnum where
  "Vw = Fin 1"

definition Vh :: jsnum where
  "Vh = Fin 1"

definition d :: jsnum where
  "d = Fin 1"

definition CanvasToViewport :: "canvas \<Rightarrow> jsnum \<Rightarrow> jsnum \<Rightarrow> vec" where
  "CanvasToViewport cv x y = \<lparr>vx = (x * Vw) / Cw cv, vy = (y * Vh) / Ch cv, vz = d\<rparr>"

text \<open>A store into a \<open>Uint8ClampedArray\<close> converts the number with ToUint8Clamp (\<open>NaN\<close>
  to 0, clamped to 0..255, rounded to the nearest integer, a tie to the even one) and
  does nothing when the index is not an integer within the array.\<close>

definition ToUint8Clamp :: "jsnum \<Rightarrow> 8 word" where
  "ToUint8Clamp v =
     (case v of
        NaN \<Rightarrow> 0
      | NInf \<Rightarrow> 0
      | PInf \<Rightarrow> 255
      | Fin r \<Rightarrow>
          if r \<le> 0 then 0
          else if 255 \<le> r then 255
          else (let f = \<lfloor>r\<rfloor>
                in if of_int f + 1 / 2 < r then of_int (f + 1)
                   else if r < of_int f + 1 / 2 then of_int f
                   else if even f then of_int f else of_int (f + 1)))"

definition typed_array_set :: "8 word list \<Rightarrow> jsnum \<Rightarrow> jsnum \<Rightarrow> 8 word list" where
  "typed_array_set arr idx v =
     (case idx of
        Fin r \<Rightarrow>
          if r = of_int \<lfloor>r\<rfloor> \<and> 0 \<le> r \<and> r < real (length arr)
          then arr[nat \<lfloor>r\<rfloor> := ToUint8Clamp v] else arr
      | _ \<Rightarrow> arr)"

text \<open>The two raster coordinates \<open>px\<close> and \<open>py\<close> that \<open>PutPixel\<close> computes first.\<close>

definition PutPixel_px :: "canvas \<Rightarrow> jsnum \<Rightarrow> jsnum" where
  "PutPixel_px cv x = Cw cv / Fin 2 + x"

definition PutPixel_py :: "canvas \<Rightarrow> jsnum \<Rightarrow> jsnum" where
  "PutPixel_py cv y = Ch cv / Fin 2 - y"

definition PutPixel :: "canvas \<Rightarrow> 8 word list \<Rightarrow> jsnum \<Rightarrow> jsnum \<Rightarrow> color \<Rightarrow> 8 word list" where
  "PutPixel cv imgData x y col =
     (let px = PutPixel_px cv x;
          py = PutPixel_py cv y
      in if px < Fin 0 \<or> Cw cv \<le> px \<or> py < Fin 0 \<or> Ch cv \<le> py then imgData
         else (let index = (px + py * Cw cv) * Fin 4;
                   data1 = typed_array_set imgData (index + Fin 0) (cr col);
                   data2 = typed_array_set data1 (index + Fin 1) (cg col);
                   data3 = typed_array_set data2 (index + Fin 2) (cb col)
               in typed_array_set data3 (index + Fin 3) (Fin 255)))"

section \<open>Double arithmetic\<close>

text \<open>
  A finite JavaScript number is a double: \<open>m * 2^e\<close> with integers \<open>|m| < 2^53\<close> and
  \<open>-1074 \<le> e \<le> 971\<close>. An arithmetic operation returns the double nearest to the exact
  result, the one of even \<open>m\<close> when two are equally near; a result too large is an
  infinity, and one too small is zero.
\<close>

text \<open>The integer nearest to \<open>q\<close>, the even one of two that are equally near.\<close>

definition round_half_even :: "real \<Rightarrow> int" where
  "round_half_even q =
     (let f = \<lfloor>q\<rfloor>
      in if q - of_int f < 1 / 2 then f
         else if 1 / 2 < q - of_int f then f + 1
         else if even f then f else f + 1)"

text \<open>The exponent of the last binary place of the doubles of the size of \<open>x\<close>: 52
  places below the leading one, and \<open>-1074\<close> for the subnormal numbers, those below
  \<open>2^-1022\<close>.\<close>

definition ulp_exponent :: "real \<Rightarrow> int" where
  "ulp_exponent x = (if \<bar>x\<bar> < 2 powi (- 1022) then - 1074 else \<lfloor>log 2 \<bar>x\<bar>\<rfloor> - 52)"

text \<open>The multiple of \<open>2^ulp_exponent\<close> nearest to \<open>x\<close>, and the double \<open>x\<close> rounds to:
  an infinity from \<open>2^1024\<close> on.\<close>

definition nearest64 :: "real \<Rightarrow> real" where
  "nearest64 x =
     of_int (round_half_even (x / 2 powi ulp_exponent x)) * 2 powi ulp_exponent x"

definition round64 :: "real \<Rightarrow> jsnum" where
  "round64 x =
     (if 2 powi 1024 \<le> \<bar>nearest64 x\<bar> then (if 0 < x then PInf else NInf)
      else Fin (nearest64 x))"

text \<open>The operations of JavaScript on doubles: the exact operation, with a finite
  result rounded. \<open>a - b\<close> is \<open>a + (-b)\<close>, and \<open>Math.sqrt\<close> is the rounded root.\<close>

definition add64 :: "jsnum \<Rightarrow> jsnum \<Rightarrow> jsnum" where
  "add64 a b = (case (a, b) of (Fin x, Fin y) \<Rightarrow> round64 (x + y) | _ \<Rightarrow> a + b)"



definition div64 :: "jsnum \<Rightarrow> jsnum \<Rightarrow> jsnum" where
  "div64 a b =
     (case (a, b) of (Fin x, Fin y) \<Rightarrow> if y \<noteq> 0 then round64 (x / y) else a / b | _ \<Rightarrow> a / b)"





section \<open>Notions of the specification\<close>

subsection \<open>Roots and candidate hits\<close>

text \<open>The two values \<open>IntersectRaySphere\<close> returns for a sphere, and the test of the
  specification for a candidate hit: \<open>tMin \<le> t \<le> tMax\<close>.\<close>

definition roots :: "vec \<Rightarrow> vec \<Rightarrow> sphere \<Rightarrow> jsnum list" where
  "roots Org D s = [fst (IntersectRaySphere Org D s), snd (IntersectRaySphere Org D s)]"

definition candidate :: "jsnum \<Rightarrow> jsnum \<Rightarrow> jsnum \<Rightarrow> bool" where
  "candidate t_min t_max t = (t_min \<le> t \<and> t \<le> t_max)"

text \<open>The invariant of the loop of \<open>TraceRay\<close> after the spheres \<open>pre\<close>: \<open>closest_t\<close>
  is below every candidate seen so far, and \<open>closest_sphere\<close> is the first sphere that
  reaches it.\<close>

definition closest_inv ::
  "vec \<Rightarrow> vec \<Rightarrow> jsnum \<Rightarrow> jsnum \<Rightarrow> sphere list \<Rightarrow> jsnum \<times> sphere option \<Rightarrow> bool" where
  "closest_inv Org D t_min t_max pre st =
     ((\<forall>s'\<in>set pre. \<forall>t'\<in>set (roots Org D s'). candidate t_min t_max t' \<longrightarrow> fst st \<le> t') \<and>
      (case snd st of
         None \<Rightarrow> fst st = PInf
       | Some s \<Rightarrow> fst st < PInf \<and> candidate t_min t_max (fst st) \<and>
           (\<exists>p q. pre = p @ s # q \<and> fst st \<in> set (roots Org D s) \<and>
              (\<forall>s'\<in>set p. \<forall>t'\<in>set (roots Org D s'). candidate t_min t_max t' \<longrightarrow> fst st < t'))))"

subsection \<open>The lighting sum\<close>

text \<open>The specification describes \<open>computeLighting\<close> as a sum over the lights, from an
  accumulator that starts at 0. These definitions follow its words: an ambient light
  adds its intensity; another light adds a diffuse term, the intensity times
  \<open>dot(N,L) / (|N|*|L|)\<close>, exactly when \<open>dot(N,L) > 0\<close>, and then, unless the exponent is
  \<open>-1\<close>, a specular term exactly when \<open>dot(R,V) > 0\<close>. The terms are added to 0 one after
  the other, in the order of the lights.\<close>

definition diffuse_terms :: "vec \<Rightarrow> jsnum \<Rightarrow> vec \<Rightarrow> jsnum list" where
  "diffuse_terms N k L =
     (if Fin 0 < dot N L then [k * (dot N L / (length_vec N * length_vec L))] else [])"

definition specular_terms :: "vec \<Rightarrow> vec \<Rightarrow> jsnum \<Rightarrow> jsnum \<Rightarrow> vec \<Rightarrow> jsnum list" where
  "specular_terms N V s k L =
     (if s = Fin (- 1) then []
      else (let R = subtract (multiply N (Fin 2 * dot N L)) L
            in if Fin 0 < dot R V
               then [k * Math_pow (dot R V / (length_vec R * length_vec V)) s]
               else []))"

fun light_terms :: "vec \<Rightarrow> vec \<Rightarrow> vec \<Rightarrow> jsnum \<Rightarrow> light \<Rightarrow> jsnum list" where
  "light_terms P N V s (Ambient k) = [k]"
| "light_terms P N V s (Point k pos) =
     diffuse_terms N k (subtract pos P) @ specular_terms N V s k (subtract pos P)"
| "light_terms P N V s (Directional k dir) =
     diffuse_terms N k dir @ specular_terms N V s k dir"

definition sum_in_order :: "jsnum list \<Rightarrow> jsnum" where
  "sum_in_order ts = foldl (+) (Fin 0) ts"

subsection \<open>Numbers that are not negative\<close>

definition nonneg_or_NaN :: "jsnum \<Rightarrow> bool" where
  "nonneg_or_NaN a = (a = NaN \<or> Fin 0 \<le> a)"

subsection \<open>The quadratic of a ray and a sphere\<close>





subsection \<open>Sample data\<close>

text \<open>The camera origin \<open>O\<close> of the source, a ray straight down the z axis and one along
  the x axis, and two unit spheres at the same place that differ in colour only.\<close>

definition O_camera :: vec where
  "O_camera = \<lparr>vx = Fin 0, vy = Fin 0, vz = Fin 0\<rparr>"

definition forward :: vec where
  "forward = \<lparr>vx = Fin 0, vy = Fin 0, vz = Fin 1\<rparr>"

definition sideways :: vec where
  "sideways = \<lparr>vx = Fin 1, vy = Fin 0, vz = Fin 0\<rparr>"

definition unit_sphere_red :: sphere where
  "unit_sphere_red = \<lparr>center = \<lparr>vx = Fin 0, vy = Fin 0, vz = Fin 3\<rparr>, radius = Fin 1,
     color = \<lparr>cr = Fin 255, cg = Fin 0, cb = Fin 0\<rparr>, specular = Fin (- 1)\<rparr>"

definition unit_sphere_blue :: sphere where
  "unit_sphere_blue = \<lparr>center = \<lparr>vx = Fin 0, vy = Fin 0, vz = Fin 3\<rparr>, radius = Fin 1,
     color = \<lparr>cr = Fin 0, cg = Fin 0, cb = Fin 255\<rparr>, specular = Fin (- 1)\<rparr>"

text \<open>A scene of the red sphere under one ambient light of intensity 2, a directional
  light along the x axis, and a canvas of two by two pixels.\<close>

definition lit_scene :: scene where
  "lit_scene = \<lparr>spheres = [unit_sphere_red], lights = [Ambient (Fin 2)]\<rparr>"

definition sun :: light where
  "sun = Directional (Fin 1) sideways"

definition small_canvas :: canvas where
  "small_canvas = \<lparr>width = 2, height = 2\<rparr>"

text \<open>A sphere of radius 2 that the ray down the z axis enters at \<open>hit_point\<close>, where the
  normal and the view vector are both \<open>backward\<close>, lit by a point light off the axis.\<close>

definition big_sphere :: sphere where
  "big_sphere = \<lparr>center = \<lparr>vx = Fin 0, vy = Fin 0, vz = Fin 3\<rparr>, radius = Fin 2,
     color = \<lparr>cr = Fin 255, cg = Fin 0, cb = Fin 0\<rparr>, specular = Fin 1\<rparr>"

definition lamp :: light where
  "lamp = Point (Fin 1) \<lparr>vx = Fin 3, vy = Fin 0, vz = Fin (- 3)\<rparr>"

definition studio_scene :: scene where
  "studio_scene = \<lparr>spheres = [big_sphere], lights = [lamp]\<rparr>"

definition hit_point :: vec where
  "hit_point = \<lparr>vx = Fin 0, vy = Fin 0, vz = Fin 1\<rparr>"

definition backward :: vec where
  "backward = \<lparr>vx = Fin 0, vy = Fin 0, vz = Fin (- 1)\<rparr>"

text \<open>An ambient, a point and a directional light, seen from \<open>foot\<close> under a normal and a
  view vector that are not unit vectors. From \<open>foot\<close> both lights are along
  \<open>L = (3, 0, 3)\<close>, at a cosine of \<open>1/2\<close> to the normal, and the reflected vector
  \<open>R = (3, 6, -3)\<close> is at a cosine of \<open>1/2\<close> to the view vector.\<close>

definition tilted_normal :: vec where
  "tilted_normal = \<lparr>vx = Fin 1, vy = Fin 1, vz = Fin 0\<rparr>"

definition onlooker :: vec where
  "onlooker = \<lparr>vx = Fin 2, vy = Fin 1, vz = Fin 1\<rparr>"

definition foot :: vec where
  "foot = \<lparr>vx = Fin 1, vy = Fin 0, vz = Fin 0\<rparr>"

definition three_lights :: scene where
  "three_lights = \<lparr>spheres = [], lights =
     [Ambient (Fin (1 / 4)),
      Point (Fin 1) \<lparr>vx = Fin 4, vy = Fin 0, vz = Fin 3\<rparr>,
      Directional (Fin (1 / 2)) \<lparr>vx = Fin 3, vy = Fin 0, vz = Fin 3\<rparr>]\<rparr>"


section \<open>Facts about JavaScript numbers\<close>

lemma js_less_trans: "(a::jsnum) < b \<Longrightarrow> b < c \<Longrightarrow> a < c"
  by (cases a; cases b; cases c) auto

lemma js_less_le_trans: "(a::jsnum) < b \<Longrightarrow> b \<le> c \<Longrightarrow> a < c"
  by (cases a; cases b; cases c) auto

lemma js_less_imp_le: "(a::jsnum) < b \<Longrightarrow> a \<le> b"
  by (cases a; cases b) auto

lemma js_not_less: "\<not> (a::jsnum) < b \<Longrightarrow> a \<noteq> NaN \<Longrightarrow> b \<noteq> NaN \<Longrightarrow> b \<le> a"
  by (cases a; cases b) auto

lemma js_le_refl: "(a::jsnum) \<noteq> NaN \<Longrightarrow> a \<le> a"
  by (cases a) auto

lemma js_less_PInf: "(a::jsnum) < b \<Longrightarrow> a < PInf"
  by (cases a; cases b) auto

lemma js_le_not_NaN: "(a::jsnum) \<le> b \<Longrightarrow> a \<noteq> NaN \<and> b \<noteq> NaN"
  by (cases a; cases b) auto

lemma js_less_not_NaN: "(a::jsnum) < b \<Longrightarrow> a \<noteq> NaN \<and> b \<noteq> NaN"
  by (cases a; cases b) auto

lemma js_PInf_le: "PInf \<le> (t::jsnum) \<Longrightarrow> t = PInf"
  by (cases t) simp_all

lemma js_add_0_left: "Fin 0 + (a::jsnum) = a"
  by (cases a) auto

lemma candidate_not_NaN: "candidate t_min t_max t \<Longrightarrow> t \<noteq> NaN"
  by (auto simp: candidate_def dest: js_le_not_NaN)

section \<open>Finite vectors\<close>

lemma sq3_zero: "x * x + y * y + z * z = (0::real) \<Longrightarrow> x = 0 \<and> y = 0 \<and> z = 0"
proof -
  assume h: "x * x + y * y + z * z = 0"
  have "0 \<le> x * x" "0 \<le> y * y" "0 \<le> z * z" by simp_all
  with h have "x * x = 0 \<and> y * y = 0 \<and> z * z = 0" by linarith
  then show ?thesis by simp
qed

lemma sq3_nonneg: "0 \<le> x * x + y * y + z * (z::real)"
  by (simp add: add_nonneg_nonneg)

lemma dot_Fin:
  "dot \<lparr>vx = Fin a, vy = Fin b, vz = Fin c\<rparr> \<lparr>vx = Fin x, vy = Fin y, vz = Fin z\<rparr>
     = Fin (a * x + b * y + c * z)"
  by (simp add: dot_def)

lemma length_vec_Fin:
  "length_vec \<lparr>vx = Fin a, vy = Fin b, vz = Fin c\<rparr> = Fin (sqrt (a * a + b * b + c * c))"
proof -
  have "\<not> a * a + b * b + c * c < 0"
    using sq3_nonneg [of a b c] by linarith
  then show ?thesis
    by (simp add: length_vec_def)
qed

section \<open>The closest hit\<close>

lemma closest_inv_not_NaN: "closest_inv Org D t_min t_max pre st \<Longrightarrow> fst st \<noteq> NaN"
  by (auto simp: closest_inv_def dest: candidate_not_NaN split: option.splits)

text \<open>One pass of the loop body either leaves the pair as it was, and then no candidate
  root of the sphere is below \<open>closest_t\<close>, or sets it to the smaller candidate root of
  the sphere, which is below the old \<open>closest_t\<close>.\<close>

lemma TraceRay_step_cases:
  assumes "fst st \<noteq> NaN"
  shows "(TraceRay_step Org D t_min t_max s st = st \<and>
           (\<forall>t\<in>set (roots Org D s). candidate t_min t_max t \<longrightarrow> fst st \<le> t)) \<or>
         (\<exists>t\<in>set (roots Org D s). TraceRay_step Org D t_min t_max s st = (t, Some s) \<and>
            candidate t_min t_max t \<and> t < fst st \<and>
            (\<forall>t'\<in>set (roots Org D s). candidate t_min t_max t' \<longrightarrow> t \<le> t'))"
proof -
  obtain t1 t2 where r: "IntersectRaySphere Org D s = (t1, t2)"
    by (cases "IntersectRaySphere Org D s")
  define c1 where "c1 = (t_min \<le> t1 \<and> t1 \<le> t_max \<and> t1 < fst st)"
  define st1 where "st1 = (if c1 then (t1, Some s) else st)"
  define c2 where "c2 = (t_min \<le> t2 \<and> t2 \<le> t_max \<and> t2 < fst st1)"
  have step: "TraceRay_step Org D t_min t_max s st = (if c2 then (t2, Some s) else st1)"
    by (simp add: TraceRay_step_def r c1_def c2_def st1_def)
  have rts: "set (roots Org D s) = {t1, t2}"
    by (simp add: roots_def r)
  have cand: "candidate t_min t_max t = (t_min \<le> t \<and> t \<le> t_max)" for t
    by (simp add: candidate_def)
  consider (both) "c1" "c2" | (first) "c1" "\<not> c2" | (second) "\<not> c1" "c2" | (none) "\<not> c1" "\<not> c2"
    by blast
  then show ?thesis
  proof cases
    case both
    then have "st1 = (t1, Some s)"
      by (simp add: st1_def)
    with both have "t2 < t1" "t1 < fst st" "t_min \<le> t2" "t2 \<le> t_max"
      unfolding c1_def c2_def by simp_all
    then have "t2 < fst st" "t2 \<le> t1" "t2 \<le> t2"
      using js_less_not_NaN [of t2 t1]
      by (simp_all add: js_less_trans [of t2 t1] js_less_imp_le js_le_refl)
    with both \<open>t_min \<le> t2\<close> \<open>t2 \<le> t_max\<close> show ?thesis
      by (simp add: step rts cand)
  next
    case first
    then have "st1 = (t1, Some s)"
      by (simp add: st1_def)
    with first have h: "t_min \<le> t1" "t1 \<le> t_max" "t1 < fst st" "\<not> (t_min \<le> t2 \<and> t2 \<le> t_max \<and> t2 < t1)"
      unfolding c1_def c2_def by simp_all
    then have "t1 \<le> t1" "t_min \<le> t2 \<and> t2 \<le> t_max \<longrightarrow> t1 \<le> t2"
      using js_le_not_NaN [of t_min t1] js_le_not_NaN [of t_min t2]
      by (auto intro: js_le_refl js_not_less)
    with first h show ?thesis
      by (simp add: step rts cand st1_def)
  next
    case second
    then have "st1 = st"
      by (simp add: st1_def)
    with second have h: "t_min \<le> t2" "t2 \<le> t_max" "t2 < fst st" "\<not> (t_min \<le> t1 \<and> t1 \<le> t_max \<and> t1 < fst st)"
      unfolding c1_def c2_def by simp_all
    then have "t2 \<le> t2" "t_min \<le> t1 \<and> t1 \<le> t_max \<longrightarrow> t2 \<le> t1"
      using assms js_le_not_NaN [of t_min t1] js_le_not_NaN [of t_min t2]
        js_not_less [of t1 "fst st"] js_less_le_trans [of t2 "fst st" t1]
      by (auto intro: js_le_refl js_less_imp_le)
    with second h show ?thesis
      by (simp add: step rts cand st1_def)
  next
    case none
    then have "st1 = st"
      by (simp add: st1_def)
    with none have h: "\<not> (t_min \<le> t1 \<and> t1 \<le> t_max \<and> t1 < fst st)"
      "\<not> (t_min \<le> t2 \<and> t2 \<le> t_max \<and> t2 < fst st)"
      unfolding c1_def c2_def by simp_all
    then have "t_min \<le> t1 \<and> t1 \<le> t_max \<longrightarrow> fst st \<le> t1"
      "t_min \<le> t2 \<and> t2 \<le> t_max \<longrightarrow> fst st \<le> t2"
      using assms js_le_not_NaN [of t_min t1] js_le_not_NaN [of t_min t2]
      by (auto intro: js_not_less)
    with none show ?thesis
      by (simp add: step rts cand st1_def)
  qed
qed

lemma closest_inv_step:
  assumes inv: "closest_inv Org D t_min t_max pre st"
  shows "closest_inv Org D t_min t_max (pre @ [s]) (TraceRay_step Org D t_min t_max s st)"
proof -
  have nn: "fst st \<noteq> NaN"
    using inv by (rule closest_inv_not_NaN)
  have old: "\<forall>s'\<in>set pre. \<forall>t'\<in>set (roots Org D s'). candidate t_min t_max t' \<longrightarrow> fst st \<le> t'"
    using inv by (simp add: closest_inv_def)
  from TraceRay_step_cases [OF nn, of Org D t_min t_max s]
  show ?thesis
  proof (elim disjE conjE bexE)
    assume same: "TraceRay_step Org D t_min t_max s st = st"
      and new: "\<forall>t\<in>set (roots Org D s). candidate t_min t_max t \<longrightarrow> fst st \<le> t"
    show ?thesis
    proof (cases "snd st")
      case None
      with inv old new show ?thesis
        by (simp add: closest_inv_def same ball_Un)
    next
      case (Some s0)
      with inv obtain p q where pq: "pre = p @ s0 # q" "fst st \<in> set (roots Org D s0)"
        "\<forall>s'\<in>set p. \<forall>t'\<in>set (roots Org D s'). candidate t_min t_max t' \<longrightarrow> fst st < t'"
        by (auto simp: closest_inv_def)
      then have "pre @ [s] = p @ s0 # (q @ [s])"
        by simp
      with pq have "\<exists>p q. pre @ [s] = p @ s0 # q \<and> fst st \<in> set (roots Org D s0) \<and>
          (\<forall>s'\<in>set p. \<forall>t'\<in>set (roots Org D s'). candidate t_min t_max t' \<longrightarrow> fst st < t')"
        by blast
      with inv old new Some show ?thesis
        by (simp add: closest_inv_def same ball_Un)
    qed
  next
    fix t
    assume t: "t \<in> set (roots Org D s)"
      and repl: "TraceRay_step Org D t_min t_max s st = (t, Some s)"
      and c: "candidate t_min t_max t" and lt: "t < fst st"
      and new: "\<forall>t'\<in>set (roots Org D s). candidate t_min t_max t' \<longrightarrow> t \<le> t'"
    have before: "\<forall>s'\<in>set pre. \<forall>t'\<in>set (roots Org D s'). candidate t_min t_max t' \<longrightarrow> t < t'"
      using old lt by (blast intro: js_less_le_trans)
    then have before_le: "\<forall>s'\<in>set pre. \<forall>t'\<in>set (roots Org D s'). candidate t_min t_max t' \<longrightarrow> t \<le> t'"
      by (blast intro: js_less_imp_le)
    have "\<exists>p q. pre @ [s] = p @ s # q \<and> t \<in> set (roots Org D s) \<and>
          (\<forall>s'\<in>set p. \<forall>t'\<in>set (roots Org D s'). candidate t_min t_max t' \<longrightarrow> t < t')"
      using t before by blast
    moreover have "t < PInf"
      using lt by (rule js_less_PInf)
    ultimately show ?thesis
      using c new before_le by (simp add: closest_inv_def repl ball_Un)
  qed
qed

lemma closest_inv_loop:
  "closest_inv Org D t_min t_max pre st \<Longrightarrow>
   closest_inv Org D t_min t_max (pre @ rest) (TraceRay_loop Org D t_min t_max rest st)"
proof (induction rest arbitrary: pre st)
  case Nil
  then show ?case by simp
next
  case (Cons s rest)
  from Cons.IH [OF closest_inv_step [OF Cons.prems, of s]]
  show ?case by simp
qed

lemma closest_inv_init: "closest_inv Org D t_min t_max [] (PInf, None)"
  by (simp add: closest_inv_def)

lemma closest_inv_final:
  "closest_inv Org D t_min t_max sphs (TraceRay_loop Org D t_min t_max sphs (PInf, None))"
  using closest_inv_loop [OF closest_inv_init, of Org D t_min t_max sphs] by simp

text \<open>
  C1. For every ray, bounds and sphere list, the loop of \<open>TraceRay\<close> ends with the hit of
  smallest root among the roots \<open>t\<close> of all spheres with \<open>t_min \<le> t \<le> t_max\<close>, both
  roots of every sphere considered: \<open>closest_t\<close> is such a root of \<open>closest_sphere\<close>, no
  such root of any sphere is smaller, and every such root of a sphere earlier in the list
  is strictly greater, so that of two spheres with the same smallest root the first in the
  list is kept. No sphere is selected exactly when the only roots in range are
  \<open>Infinity\<close>, the value \<open>IntersectRaySphere\<close> returns for no intersection. The
  \<open>TraceRay\<close> of the renderer without lighting returns the colour of the selected sphere.
\<close>

theorem TraceRay_selects_closest_hit:
  assumes run: "TraceRay_loop Org D t_min t_max (spheres sc) (PInf, None) = (closest_t, closest_sphere)"
  shows "(closest_sphere = None \<longleftrightarrow>
            (\<forall>s\<in>set (spheres sc). \<forall>t\<in>set (roots Org D s). candidate t_min t_max t \<longrightarrow> t = PInf)) \<and>
         (\<forall>s. closest_sphere = Some s \<longrightarrow>
            candidate t_min t_max closest_t \<and> closest_t < PInf \<and>
            (\<forall>s'\<in>set (spheres sc). \<forall>t'\<in>set (roots Org D s').
               candidate t_min t_max t' \<longrightarrow> closest_t \<le> t') \<and>
            (\<exists>p q. spheres sc = p @ s # q \<and> closest_t \<in> set (roots Org D s) \<and>
               (\<forall>s'\<in>set p. \<forall>t'\<in>set (roots Org D s').
                  candidate t_min t_max t' \<longrightarrow> closest_t < t'))) \<and>
         TraceRay_part_000 sc Org D t_min t_max =
           (case closest_sphere of None \<Rightarrow> BACKGROUND_COLOR_part_000 | Some s \<Rightarrow> color s)"
proof -
  have inv: "closest_inv Org D t_min t_max (spheres sc) (closest_t, closest_sphere)"
    using closest_inv_final [of Org D t_min t_max "spheres sc"] by (simp add: run)
  have le: "\<forall>s'\<in>set (spheres sc). \<forall>t'\<in>set (roots Org D s').
      candidate t_min t_max t' \<longrightarrow> closest_t \<le> t'"
    using inv by (simp add: closest_inv_def)
  have none: "closest_sphere = None \<longleftrightarrow>
      (\<forall>s\<in>set (spheres sc). \<forall>t\<in>set (roots Org D s). candidate t_min t_max t \<longrightarrow> t = PInf)"
  proof
    assume "closest_sphere = None"
    with inv have "closest_t = PInf" by (simp add: closest_inv_def)
    with le have "\<forall>s\<in>set (spheres sc). \<forall>t\<in>set (roots Org D s).
        candidate t_min t_max t \<longrightarrow> PInf \<le> t" by simp
    moreover have "PInf \<le> t \<Longrightarrow> t = PInf" for t :: jsnum
      by (cases t) simp_all
    ultimately show "\<forall>s\<in>set (spheres sc). \<forall>t\<in>set (roots Org D s).
        candidate t_min t_max t \<longrightarrow> t = PInf" by blast
  next
    assume all: "\<forall>s\<in>set (spheres sc). \<forall>t\<in>set (roots Org D s).
        candidate t_min t_max t \<longrightarrow> t = PInf"
    show "closest_sphere = None"
    proof (cases closest_sphere)
      case None
      then show ?thesis .
    next
      case (Some s)
      with inv have "closest_t < PInf" "candidate t_min t_max closest_t"
        "s \<in> set (spheres sc)" "closest_t \<in> set (roots Org D s)"
        by (auto simp: closest_inv_def)
      with all have "closest_t = PInf" "closest_t < PInf" by blast+
      then show ?thesis by simp
    qed
  qed
  have some: "\<forall>s. closest_sphere = Some s \<longrightarrow>
            candidate t_min t_max closest_t \<and> closest_t < PInf \<and>
            (\<forall>s'\<in>set (spheres sc). \<forall>t'\<in>set (roots Org D s').
               candidate t_min t_max t' \<longrightarrow> closest_t \<le> t') \<and>
            (\<exists>p q. spheres sc = p @ s # q \<and> closest_t \<in> set (roots Org D s) \<and>
               (\<forall>s'\<in>set p. \<forall>t'\<in>set (roots Org D s').
                  candidate t_min t_max t' \<longrightarrow> closest_t < t'))"
    using inv le by (auto simp: closest_inv_def)
  have "TraceRay_part_000 sc Org D t_min t_max =
           (case closest_sphere of None \<Rightarrow> BACKGROUND_COLOR_part_000 | Some s \<Rightarrow> color s)"
    by (simp add: TraceRay_part_000_def run)
  with none some show ?thesis by blast
qed

theorem TraceRay_selects_closest_hit_witness:
  "TraceRay_loop O_camera forward (Fin 1) PInf
       (spheres \<lparr>spheres = [unit_sphere_red, unit_sphere_blue], lights = []\<rparr>) (PInf, None)
     = (Fin 2, Some unit_sphere_red) \<and>
   candidate (Fin 1) PInf (Fin 2) \<and>
   TraceRay_part_000 \<lparr>spheres = [unit_sphere_red, unit_sphere_blue], lights = []\<rparr>
       O_camera forward (Fin 1) PInf = \<lparr>cr = Fin 255, cg = Fin 0, cb = Fin 0\<rparr>"
proof -
  have red: "IntersectRaySphere O_camera forward unit_sphere_red = (Fin 4, Fin 2)"
    by (simp add: IntersectRaySphere_def O_camera_def forward_def unit_sphere_red_def
      dot_def subtract_def minus_jsnum_def Let_def)
  have blue: "IntersectRaySphere O_camera forward unit_sphere_blue = (Fin 4, Fin 2)"
    by (simp add: IntersectRaySphere_def O_camera_def forward_def unit_sphere_blue_def
      dot_def subtract_def minus_jsnum_def Let_def)
  have run: "TraceRay_loop O_camera forward (Fin 1) PInf
       (spheres \<lparr>spheres = [unit_sphere_red, unit_sphere_blue], lights = []\<rparr>) (PInf, None)
     = (Fin 2, Some unit_sphere_red)"
    by (simp add: TraceRay_step_def red blue)
  note inst = TraceRay_selects_closest_hit [OF run]
  from inst [THEN conjunct2, THEN conjunct1]
  have "candidate (Fin 1) PInf (Fin 2)"
    by blast
  moreover from inst [THEN conjunct2, THEN conjunct2]
  have "TraceRay_part_000 \<lparr>spheres = [unit_sphere_red, unit_sphere_blue], lights = []\<rparr>
       O_camera forward (Fin 1) PInf = \<lparr>cr = Fin 255, cg = Fin 0, cb = Fin 0\<rparr>"
    by (simp add: unit_sphere_red_def)
  ultimately show ?thesis
    using run by blast
qed

section \<open>Lighting as a sum\<close>

lemma ComputeLighting_body_terms:
  "ComputeLighting_body N V s k L i =
     foldl (+) i (diffuse_terms N k L @ specular_terms N V s k L)"
  by (simp add: ComputeLighting_body_def diffuse_terms_def specular_terms_def Let_def)

lemma ComputeLighting_loop_terms:
  "ComputeLighting_loop P N V s ls i = foldl (+) i (concat (map (light_terms P N V s) ls))"
  by (induction P N V s ls i rule: ComputeLighting_loop.induct)
    (simp_all add: ComputeLighting_body_terms)

text \<open>
  C3. For every point \<open>P\<close>, normal \<open>N\<close>, view vector \<open>V\<close> and specular exponent \<open>s\<close>,
  \<open>ComputeLighting\<close> is the sum, accumulated from 0 in the order of the lights, of: the
  intensity of an ambient light; and for a point light (\<open>L = position - P\<close>) or a
  directional light (\<open>L\<close> the stored direction) the diffuse term
  \<open>intensity * (dot(N,L) / (|N|*|L|))\<close>, added exactly when \<open>dot(N,L) > 0\<close>, and then,
  unless \<open>s\<close> is \<open>-1\<close>, the specular term \<open>intensity * (dot(R,V) / (|R|*|V|))^s\<close> with
  \<open>R = 2*dot(N,L)*N - L\<close>, added exactly when \<open>dot(R,V) > 0\<close>. The terms are grouped and
  added as the code groups and adds them, so the equation rests on no law of the
  arithmetic: it holds of rounded operations as it does of exact ones.
\<close>

theorem ComputeLighting_sum:
  "ComputeLighting sc P N V s = sum_in_order (concat (map (light_terms P N V s) (lights sc)))"
  by (simp add: ComputeLighting_def sum_in_order_def ComputeLighting_loop_terms)

text \<open>The three lights seen from \<open>foot\<close>: \<open>|N|*|L| = sqrt 2 * sqrt 18 = 6\<close> under
  \<open>dot(N,L) = 3\<close>, and \<open>|R|*|V| = sqrt 54 * sqrt 6 = 18\<close> under \<open>dot(R,V) = 9\<close>. With the
  exponents 2, 0 and \<open>-1\<close> the specular term is a quarter of the intensity, the
  intensity, and absent.\<close>

lemma sqrt_products: "sqrt 2 * sqrt 18 = 6" "sqrt 54 * sqrt 6 = 18"
proof -
  have "sqrt 2 * sqrt 18 = sqrt 36"
    by (simp add: real_sqrt_mult [symmetric])
  also have "\<dots> = 6"
    using real_sqrt_abs [of 6] by simp
  finally show "sqrt 2 * sqrt 18 = 6" .
  have "sqrt 54 * sqrt 6 = sqrt 324"
    by (simp add: real_sqrt_mult [symmetric])
  also have "\<dots> = 18"
    using real_sqrt_abs [of 18] by simp
  finally show "sqrt 54 * sqrt 6 = 18" .
qed

lemma slant_direction:
  "subtract \<lparr>vx = Fin 4, vy = Fin 0, vz = Fin 3\<rparr> foot = \<lparr>vx = Fin 3, vy = Fin 0, vz = Fin 3\<rparr>"
  by (simp add: subtract_def foot_def minus_jsnum_def)

lemma slant_diffuse:
  "diffuse_terms tilted_normal (Fin k) \<lparr>vx = Fin 3, vy = Fin 0, vz = Fin 3\<rparr> = [Fin (k / 2)]"
  by (simp add: diffuse_terms_def tilted_normal_def dot_def length_vec_def sqrt_products)

lemma slant_specular:
  "specular_terms tilted_normal onlooker (Fin e) (Fin k) \<lparr>vx = Fin 3, vy = Fin 0, vz = Fin 3\<rparr>
     = (if e = - 1 then [] else [Fin k * Math_pow (Fin (1 / 2)) (Fin e)])"
proof -
  have R: "subtract (multiply tilted_normal (Fin 2 * dot tilted_normal \<lparr>vx = Fin 3, vy = Fin 0, vz = Fin 3\<rparr>))
      \<lparr>vx = Fin 3, vy = Fin 0, vz = Fin 3\<rparr> = \<lparr>vx = Fin 3, vy = Fin 6, vz = Fin (- 3)\<rparr>"
    by (simp add: subtract_def multiply_def tilted_normal_def dot_def minus_jsnum_def)
  have c: "dot \<lparr>vx = Fin 3, vy = Fin 6, vz = Fin (- 3)\<rparr> onlooker = Fin 9"
    "length_vec \<lparr>vx = Fin 3, vy = Fin 6, vz = Fin (- 3)\<rparr> * length_vec onlooker = Fin 18"
    by (simp_all add: onlooker_def dot_def length_vec_def sqrt_products)
  show ?thesis
    by (simp add: specular_terms_def Let_def R c)
qed

lemma three_lights_terms:
  "concat (map (light_terms foot tilted_normal onlooker (Fin e)) (lights three_lights)) =
     [Fin (1 / 4), Fin (1 / 2)] @ (if e = - 1 then [] else [Fin 1 * Math_pow (Fin (1 / 2)) (Fin e)])
     @ [Fin (1 / 4)] @ (if e = - 1 then [] else [Fin (1 / 2) * Math_pow (Fin (1 / 2)) (Fin e)])"
  using slant_diffuse [of 1] slant_diffuse [of "1 / 2"]
  by (simp add: three_lights_def slant_direction slant_specular)

lemma three_lights_lighting:
  "ComputeLighting three_lights foot tilted_normal onlooker (Fin 2) = Fin (11 / 8)"
  by (simp add: ComputeLighting_def ComputeLighting_loop_terms three_lights_terms power2_eq_square)

theorem ComputeLighting_sum_witness:
  "ComputeLighting three_lights foot tilted_normal onlooker (Fin 2) = Fin (11 / 8) \<and>
   ComputeLighting three_lights foot tilted_normal onlooker (Fin 0) = Fin (5 / 2) \<and>
   ComputeLighting three_lights foot tilted_normal onlooker (Fin (- 1)) = Fin 1"
  using ComputeLighting_sum [of three_lights foot tilted_normal onlooker "Fin 2"]
    ComputeLighting_sum [of three_lights foot tilted_normal onlooker "Fin 0"]
    ComputeLighting_sum [of three_lights foot tilted_normal onlooker "Fin (- 1)"]
  by (simp add: three_lights_terms sum_in_order_def power2_eq_square)

text \<open>
  C6. With a light list of exactly one ambient light of intensity \<open>k\<close>, \<open>ComputeLighting\<close>
  returns exactly \<open>k\<close>, for every \<open>P\<close>, \<open>N\<close>, \<open>V\<close> and every specular exponent.
\<close>

theorem ComputeLighting_ambient_only:
  "lights sc = [Ambient k] \<Longrightarrow> ComputeLighting sc P N V s = k"
  by (simp add: ComputeLighting_def js_add_0_left)

theorem ComputeLighting_ambient_only_witness:
  "lights \<lparr>spheres = [], lights = [Ambient (Fin (1 / 5))]\<rparr> = [Ambient (Fin (1 / 5))] \<and>
   ComputeLighting \<lparr>spheres = [], lights = [Ambient (Fin (1 / 5))]\<rparr>
     O_camera forward sideways (Fin 500) = Fin (1 / 5)"
proof -
  have h: "lights \<lparr>spheres = [], lights = [Ambient (Fin (1 / 5))]\<rparr> = [Ambient (Fin (1 / 5))]"
    by simp
  from ComputeLighting_ambient_only [OF h] h show ?thesis
    by blast
qed

section \<open>Rounding to the nearest integer\<close>

lemma round_half_even_of_int: "round_half_even (of_int m) = m"
  by (simp add: round_half_even_def)






section \<open>Rounding to the nearest double\<close>

lemma floor_log2_lower:
  assumes "0 < y"
  shows "2 powi \<lfloor>log 2 y\<rfloor> \<le> y"
proof -
  from floor_log_eq_powr_iff [of y 2 "\<lfloor>log 2 y\<rfloor>"] assms
  have "2 powr (of_int \<lfloor>log 2 y\<rfloor>) \<le> y"
    by simp
  then show ?thesis
    by (simp add: powr_real_of_int')
qed





lemma above_binade_bottom:
  assumes "- 1074 < ulp_exponent x"
  shows "2 powi (ulp_exponent x + 52) \<le> \<bar>x\<bar>"
proof -
  from assms have n: "\<not> \<bar>x\<bar> < 2 powi (- 1022)"
    by (auto simp: ulp_exponent_def)
  have "0 < (2::real) powi (- 1022)" by simp
  with n have pos: "0 < \<bar>x\<bar>" by linarith
  have "ulp_exponent x + 52 = \<lfloor>log 2 \<bar>x\<bar>\<rfloor>"
    using n by (simp add: ulp_exponent_def)
  with floor_log2_lower [OF pos] show ?thesis
    by (simp only:)
qed









lemma real_of_int_bound: "\<bar>n\<bar> < 2 ^ 53 \<Longrightarrow> \<bar>real_of_int n\<bar> < 2 ^ 53"
  by (metis of_int_abs of_int_less_iff of_int_numeral of_int_power)

text \<open>A number \<open>n * 2^j\<close> with \<open>|n| < 2^53\<close> and \<open>j \<ge> -1074\<close> is a double: rounding
  leaves it as it is.\<close>

lemma nearest64_exact:
  assumes x: "x = of_int n * 2 powi j"
    and n: "\<bar>n\<bar> < 2 ^ 53"
    and j: "- 1074 \<le> j"
  shows "nearest64 x = x"
proof -
  define e where "e = ulp_exponent x"
  have ej: "e \<le> j"
  proof (cases "- 1074 < e")
    case False
    with j show ?thesis by simp
  next
    case True
    then have low: "2 powi (e + 52) \<le> \<bar>x\<bar>"
      unfolding e_def by (rule above_binade_bottom)
    show ?thesis
    proof (rule ccontr)
      assume "\<not> e \<le> j"
      then have jk: "j + 53 \<le> e + 52"
        by simp
      have "\<bar>x\<bar> = \<bar>real_of_int n\<bar> * 2 powi j"
        by (simp add: x abs_mult)
      also have "\<dots> < 2 ^ 53 * 2 powi j"
        by (rule mult_strict_right_mono [OF real_of_int_bound [OF n]]) simp
      also have "\<dots> = 2 powi (j + 53)"
        by (simp add: power_int_add)
      also have "\<dots> \<le> 2 powi (e + 52)"
        using jk by (intro power_int_increasing) simp_all
      finally show False
        using low by linarith
    qed
  qed
  have "x / 2 powi e = of_int n * 2 powi (j - e)"
    by (simp add: x power_int_diff)
  also have "2 powi (j - e) = (2::real) ^ nat (j - e)"
    using ej by (simp add: power_int_def)
  finally have q: "x / 2 powi e = of_int (n * 2 ^ nat (j - e))"
    by simp
  have "of_int (round_half_even (x / 2 powi e)) * 2 powi e = x / 2 powi e * 2 powi e"
    unfolding q round_half_even_of_int ..
  also have "\<dots> = x"
    by simp
  finally show ?thesis
    by (simp add: nearest64_def e_def [symmetric])
qed

lemma round64_exact:
  assumes "x = of_int n * 2 powi j" "\<bar>n\<bar> < 2 ^ 53" "- 1074 \<le> j" "\<bar>x\<bar> < 2 powi 1024"
  shows "round64 x = Fin x"
  using assms(4) nearest64_exact [OF assms(1-3)] by (simp add: round64_def)

lemma round64_int:
  assumes "\<bar>n\<bar> < 2 ^ 53"
  shows "round64 (of_int n) = Fin (of_int n)"
proof -
  have "\<bar>real_of_int n\<bar> < 2 ^ 53"
    using assms by (rule real_of_int_bound)
  also have "(2::real) ^ 53 < 2 powi 1024"
    by simp
  finally show ?thesis
    using round64_exact [of "of_int n" n 0] assms by simp
qed

lemma round64_not_NaN: "round64 x \<noteq> NaN"
  by (simp add: round64_def)

lemma round64_bounds [simp]: "round64 x \<le> PInf" "NInf \<le> round64 x"
  by (cases "round64 x"; simp add: round64_not_NaN)+



section \<open>Order in double arithmetic\<close>





lemma add64_NaN [simp]: "add64 a NaN = NaN" "add64 NaN a = NaN"
  by (cases a; simp add: add64_def)+

lemma div64_NaN [simp]: "div64 a NaN = NaN" "div64 NaN a = NaN"
  by (cases a; simp add: div64_def)+



section \<open>The intersection of a ray and a sphere\<close>




lemma round64_small_ints [simp]:
  "round64 0 = Fin 0" "round64 1 = Fin 1" "round64 2 = Fin 2" "round64 4 = Fin 4" "round64 8 = Fin 8" "round64 9 = Fin 9"
  "round64 32 = Fin 32" "round64 36 = Fin 36"
  "round64 (- 3) = Fin (- 3)" "round64 (- 6) = Fin (- 6)"
  using round64_int [of 0] round64_int [of 1] round64_int [of 2] round64_int [of 4] round64_int [of 8] round64_int [of 9]
    round64_int [of 32] round64_int [of 36] round64_int [of "- 3"] round64_int [of "- 6"]
  by simp_all






section \<open>Lighting is never negative\<close>

lemma nonneg_or_NaN_add:
  "nonneg_or_NaN a \<Longrightarrow> nonneg_or_NaN b \<Longrightarrow> nonneg_or_NaN (a + b)"
  by (cases a; cases b) (auto simp: nonneg_or_NaN_def)

lemma nonneg_or_NaN_mult:
  "nonneg_or_NaN a \<Longrightarrow> nonneg_or_NaN b \<Longrightarrow> nonneg_or_NaN (a * b)"
  by (cases a; cases b) (auto simp: nonneg_or_NaN_def)

lemma nonneg_or_NaN_divide:
  "nonneg_or_NaN a \<Longrightarrow> nonneg_or_NaN b \<Longrightarrow> nonneg_or_NaN (a / b)"
  by (cases a; cases b) (auto simp: nonneg_or_NaN_def)

lemma nonneg_or_NaN_sqrt: "nonneg_or_NaN (Math_sqrt a)"
  by (cases a) (simp_all add: nonneg_or_NaN_def)

lemma nonneg_or_NaN_pow: "nonneg_or_NaN b \<Longrightarrow> nonneg_or_NaN (Math_pow b e)"
  by (cases b; cases e) (auto simp: nonneg_or_NaN_def)

lemma nonneg_or_NaN_less: "Fin 0 < a \<Longrightarrow> nonneg_or_NaN a"
  by (cases a) (simp_all add: nonneg_or_NaN_def)

lemma nonneg_or_NaN_le: "Fin 0 \<le> a \<Longrightarrow> nonneg_or_NaN a"
  by (simp add: nonneg_or_NaN_def)

lemma nonneg_or_NaN_length_vec: "nonneg_or_NaN (length_vec v)"
  by (simp add: length_vec_def nonneg_or_NaN_sqrt)

lemma cosine_nonneg_or_NaN:
  "Fin 0 < dot A B \<Longrightarrow> nonneg_or_NaN (dot A B / (length_vec A * length_vec B))"
  by (intro nonneg_or_NaN_divide nonneg_or_NaN_mult nonneg_or_NaN_length_vec nonneg_or_NaN_less)

lemma diffuse_terms_nonneg:
  assumes "Fin 0 \<le> k" "t \<in> set (diffuse_terms N k L)"
  shows "nonneg_or_NaN t"
proof (cases "Fin 0 < dot N L")
  case True
  with assms(2) have "t = k * (dot N L / (length_vec N * length_vec L))"
    by (simp add: diffuse_terms_def)
  moreover have "nonneg_or_NaN k"
    using assms(1) by (rule nonneg_or_NaN_le)
  ultimately show ?thesis
    using cosine_nonneg_or_NaN [OF True] by (simp add: nonneg_or_NaN_mult)
next
  case False
  with assms(2) show ?thesis
    by (simp add: diffuse_terms_def)
qed

lemma specular_terms_nonneg:
  assumes "Fin 0 \<le> k" "t \<in> set (specular_terms N V s k L)"
  shows "nonneg_or_NaN t"
proof -
  define R where "R = subtract (multiply N (Fin 2 * dot N L)) L"
  show ?thesis
  proof (cases "s \<noteq> Fin (- 1) \<and> Fin 0 < dot R V")
    case True
    with assms(2) have "t = k * Math_pow (dot R V / (length_vec R * length_vec V)) s"
      by (simp add: specular_terms_def R_def [symmetric] Let_def)
    moreover have "nonneg_or_NaN k"
      using assms(1) by (rule nonneg_or_NaN_le)
    moreover have "nonneg_or_NaN (Math_pow (dot R V / (length_vec R * length_vec V)) s)"
      using True by (intro nonneg_or_NaN_pow cosine_nonneg_or_NaN) simp
    ultimately show ?thesis
      by (simp add: nonneg_or_NaN_mult)
  next
    case False
    with assms(2) show ?thesis
      by (auto simp: specular_terms_def R_def [symmetric] Let_def split: if_splits)
  qed
qed

lemma light_terms_nonneg:
  assumes "Fin 0 \<le> intensity l" "t \<in> set (light_terms P N V s l)"
  shows "nonneg_or_NaN t"
  using assms
  by (cases l) (auto intro: nonneg_or_NaN_le diffuse_terms_nonneg specular_terms_nonneg)

lemma foldl_nonneg_or_NaN:
  "nonneg_or_NaN i \<Longrightarrow> \<forall>t\<in>set ts. nonneg_or_NaN t \<Longrightarrow> nonneg_or_NaN (foldl (+) i ts)"
  by (induction ts arbitrary: i) (simp_all add: nonneg_or_NaN_add)

text \<open>
  C10, as the code has it. For every \<open>P\<close>, \<open>N\<close>, \<open>V\<close>, every specular exponent and every
  light list in which every intensity is non-negative, the value \<open>ComputeLighting\<close>
  returns is non-negative or \<open>NaN\<close>: the accumulator starts at 0 and every term added to
  it is non-negative or \<open>NaN\<close>. No input is excluded. The witness is the three lights,
  where a diffuse and a specular term are added for each of the two directed lights.
\<close>

theorem ComputeLighting_nonneg_or_NaN:
  assumes "\<forall>l\<in>set (lights sc). Fin 0 \<le> intensity l"
  shows "ComputeLighting sc P N V s = NaN \<or> Fin 0 \<le> ComputeLighting sc P N V s"
proof -
  have "\<forall>t\<in>set (concat (map (light_terms P N V s) (lights sc))). nonneg_or_NaN t"
    using assms by (auto intro: light_terms_nonneg)
  moreover have "nonneg_or_NaN (Fin 0)"
    by (simp add: nonneg_or_NaN_def)
  ultimately have "nonneg_or_NaN (foldl (+) (Fin 0) (concat (map (light_terms P N V s) (lights sc))))"
    by (intro foldl_nonneg_or_NaN)
  then show ?thesis
    by (simp add: ComputeLighting_def ComputeLighting_loop_terms nonneg_or_NaN_def)
qed

theorem ComputeLighting_nonneg_or_NaN_witness:
  "ComputeLighting three_lights foot tilted_normal onlooker (Fin 2) = Fin (11 / 8) \<and>
   Fin 0 \<le> ComputeLighting three_lights foot tilted_normal onlooker (Fin 2)"
proof -
  have h: "\<forall>l\<in>set (lights three_lights). Fin 0 \<le> intensity l"
    by (simp add: three_lights_def)
  from ComputeLighting_nonneg_or_NaN [OF h, of foot tilted_normal onlooker "Fin 2"]
  show ?thesis
    by (simp add: three_lights_lighting)
qed

text \<open>
  C10 as stated fails, for the value can be \<open>NaN\<close>: under a directional light of
  intensity 1 along the x axis,
  the normal \<open>{x: Infinity, y: 0, z: 0}\<close> has \<open>dot(N,L) = Infinity > 0\<close> and
  \<open>|N|*|L| = Infinity\<close>, the diffuse term is \<open>1 * (Infinity / Infinity) = NaN\<close>, and
  \<open>ComputeLighting\<close> returns \<open>NaN\<close>, which is not \<open>>= 0\<close>.
\<close>

theorem ComputeLighting_nonneg_counterexample:
  "Fin 0 \<le> intensity sun \<and>
   \<not> Fin 0 \<le> ComputeLighting \<lparr>spheres = [], lights = [sun]\<rparr>
         O_camera \<lparr>vx = PInf, vy = Fin 0, vz = Fin 0\<rparr> forward (Fin (- 1))"
  by (simp add: sun_def sideways_def ComputeLighting_def ComputeLighting_body_def
      dot_def length_vec_def)

section \<open>Shading and background\<close>

lemma js_times_minus_one: "a * Fin (- 1) = - (a::jsnum)"
  by (cases a) simp_all

text \<open>The lamp seen from \<open>hit_point\<close>: \<open>L = (3, 0, -4)\<close>, at a cosine of \<open>4/5\<close> to the
  normal, and reflected to \<open>R = (-3, 0, -4)\<close>, at a cosine of \<open>4/5\<close> to the view vector.\<close>

lemma lamp_direction:
  "subtract \<lparr>vx = Fin 3, vy = Fin 0, vz = Fin (- 3)\<rparr> hit_point = \<lparr>vx = Fin 3, vy = Fin 0, vz = Fin (- 4)\<rparr>"
  by (simp add: subtract_def hit_point_def minus_jsnum_def)

lemma lamp_diffuse:
  "diffuse_terms backward (Fin 1) \<lparr>vx = Fin 3, vy = Fin 0, vz = Fin (- 4)\<rparr> = [Fin (4 / 5)]"
proof -
  have "sqrt 25 = 5"
    using real_sqrt_abs [of 5] by simp
  then show ?thesis
    by (simp add: diffuse_terms_def backward_def dot_def length_vec_def)
qed

lemma lamp_specular:
  "specular_terms backward backward (Fin e) (Fin 1) \<lparr>vx = Fin 3, vy = Fin 0, vz = Fin (- 4)\<rparr>
     = (if e = - 1 then [] else [Math_pow (Fin (4 / 5)) (Fin e)])"
proof -
  have five: "sqrt 25 = 5"
    using real_sqrt_abs [of 5] by simp
  have R: "subtract (multiply backward (Fin 2 * dot backward \<lparr>vx = Fin 3, vy = Fin 0, vz = Fin (- 4)\<rparr>))
      \<lparr>vx = Fin 3, vy = Fin 0, vz = Fin (- 4)\<rparr> = \<lparr>vx = Fin (- 3), vy = Fin 0, vz = Fin (- 4)\<rparr>"
    by (simp add: subtract_def multiply_def backward_def dot_def minus_jsnum_def)
  have c: "dot \<lparr>vx = Fin (- 3), vy = Fin 0, vz = Fin (- 4)\<rparr> backward = Fin 4"
    "length_vec \<lparr>vx = Fin (- 3), vy = Fin 0, vz = Fin (- 4)\<rparr> = Fin 5"
    "length_vec backward = Fin 1"
    by (simp_all add: backward_def dot_def length_vec_def five)
  have one: "Fin 1 * x = x" for x
    by (cases x) simp_all
  show ?thesis
    by (simp add: specular_terms_def Let_def R c one)
qed

lemma studio_lighting:
  "ComputeLighting studio_scene hit_point backward backward (Fin 1) = Fin (8 / 5)"
  by (simp add: ComputeLighting_def studio_scene_def lamp_def ComputeLighting_loop_terms
      lamp_direction lamp_diffuse lamp_specular)

text \<open>
  C4. For every ray whose loop ends with a closest hit \<open>(closest_t, closest_sphere)\<close>,
  \<open>TraceRay\<close> computes the hit point \<open>P = origin + closest_t * direction\<close>, the normal
  \<open>N\<close>, which is \<open>P - closest_sphere.center\<close> with each component divided by the length
  of that vector, the view vector \<open>V = -direction\<close>, not normalized, and returns the
  colour whose channels are those of \<open>closest_sphere\<close>, each multiplied by
  \<open>ComputeLighting(P, N, V, closest_sphere.specular)\<close>; nothing is clamped. The vectors
  are written out component by component. In the witness the light is a point light
  and the surface is specular, so the colour depends on \<open>P\<close>, \<open>N\<close> and \<open>V\<close>; its red
  channel is \<open>255 * 1.6 = 408\<close>, above 255.
\<close>

theorem TraceRay_shades_closest_hit:
  assumes "TraceRay_loop Org D t_min t_max (spheres sc) (PInf, None)
             = (closest_t, Some closest_sphere)"
  shows "TraceRay sc Org D t_min t_max =
     (let P = \<lparr>vx = vx Org + vx D * closest_t,
                vy = vy Org + vy D * closest_t,
                vz = vz Org + vz D * closest_t\<rparr>;
          M = \<lparr>vx = vx P - vx (center closest_sphere),
                vy = vy P - vy (center closest_sphere),
                vz = vz P - vz (center closest_sphere)\<rparr>;
          len = Math_sqrt (vx M * vx M + vy M * vy M + vz M * vz M);
          N = \<lparr>vx = vx M / len, vy = vy M / len, vz = vz M / len\<rparr>;
          V = \<lparr>vx = - vx D, vy = - vy D, vz = - vz D\<rparr>;
          i = ComputeLighting sc P N V (specular closest_sphere)
      in \<lparr>cr = cr (color closest_sphere) * i,
          cg = cg (color closest_sphere) * i,
          cb = cb (color closest_sphere) * i\<rparr>)"
  using assms
  by (simp add: TraceRay_def Let_def add_def multiply_def subtract_def divide_vec_def
      length_vec_def js_times_minus_one)

theorem TraceRay_shades_closest_hit_witness:
  "TraceRay_loop O_camera forward (Fin 1) PInf (spheres studio_scene) (PInf, None)
     = (Fin 1, Some big_sphere) \<and>
   TraceRay studio_scene O_camera forward (Fin 1) PInf = \<lparr>cr = Fin 408, cg = Fin 0, cb = Fin 0\<rparr>"
proof -
  have big: "IntersectRaySphere O_camera forward big_sphere = (Fin 5, Fin 1)"
  proof -
    have "sqrt 16 = 4"
      using real_sqrt_abs [of 4] by simp
    then show ?thesis
      by (simp add: IntersectRaySphere_def O_camera_def forward_def big_sphere_def
          dot_def subtract_def minus_jsnum_def Let_def)
  qed
  have run: "TraceRay_loop O_camera forward (Fin 1) PInf (spheres studio_scene) (PInf, None)
     = (Fin 1, Some big_sphere)"
    by (simp add: studio_scene_def TraceRay_step_def big)
  have P: "\<lparr>vx = vx O_camera + vx forward * Fin 1, vy = vy O_camera + vy forward * Fin 1,
            vz = vz O_camera + vz forward * Fin 1\<rparr> = hit_point"
    by (simp add: O_camera_def forward_def hit_point_def)
  have N: "\<lparr>vx = (vx hit_point - vx (center big_sphere)) / Fin 2,
            vy = (vy hit_point - vy (center big_sphere)) / Fin 2,
            vz = (vz hit_point - vz (center big_sphere)) / Fin 2\<rparr> = backward"
    by (simp add: hit_point_def big_sphere_def backward_def minus_jsnum_def)
  have len: "Math_sqrt ((vx hit_point - vx (center big_sphere)) * (vx hit_point - vx (center big_sphere))
      + (vy hit_point - vy (center big_sphere)) * (vy hit_point - vy (center big_sphere))
      + (vz hit_point - vz (center big_sphere)) * (vz hit_point - vz (center big_sphere))) = Fin 2"
    by (simp add: hit_point_def big_sphere_def minus_jsnum_def)
  have V: "\<lparr>vx = - vx forward, vy = - vy forward, vz = - vz forward\<rparr> = backward"
    by (simp add: forward_def backward_def)
  have s: "specular big_sphere = Fin 1" "color big_sphere = \<lparr>cr = Fin 255, cg = Fin 0, cb = Fin 0\<rparr>"
    by (simp_all add: big_sphere_def)
  from TraceRay_shades_closest_hit [OF run]
  have "TraceRay studio_scene O_camera forward (Fin 1) PInf = \<lparr>cr = Fin 408, cg = Fin 0, cb = Fin 0\<rparr>"
    by (simp add: Let_def P len N V s studio_lighting)
  with run show ?thesis
    by blast
qed

text \<open>
  C5. For every ray for which no sphere yields a root \<open>t\<close> with \<open>t_min \<le> t \<le> t_max\<close>,
  \<open>TraceRay\<close> returns exactly the constant \<open>BACKGROUND_COLOR\<close>, in both versions of the
  renderer. The hypothesis lets a root in range be \<open>Infinity\<close>, the value returned for no
  intersection, as it is for every missed sphere under \<open>t_max = Infinity\<close>, the bound
  \<open>render\<close> passes: such a root is no hit and is never selected.
\<close>

theorem TraceRay_background:
  assumes "\<forall>s\<in>set (spheres sc). \<forall>t\<in>set (roots Org D s). candidate t_min t_max t \<longrightarrow> t = PInf"
  shows "TraceRay sc Org D t_min t_max = BACKGROUND_COLOR \<and>
         TraceRay_part_000 sc Org D t_min t_max = BACKGROUND_COLOR_part_000"
proof -
  obtain ct cs where run: "TraceRay_loop Org D t_min t_max (spheres sc) (PInf, None) = (ct, cs)"
    by (cases "TraceRay_loop Org D t_min t_max (spheres sc) (PInf, None)")
  have inv: "closest_inv Org D t_min t_max (spheres sc) (ct, cs)"
    using closest_inv_final [of Org D t_min t_max "spheres sc"] by (simp add: run)
  have "cs = None"
  proof (cases cs)
    case None
    then show ?thesis .
  next
    case (Some s)
    with inv have "ct < PInf" "candidate t_min t_max ct" "s \<in> set (spheres sc)"
      "ct \<in> set (roots Org D s)"
      by (auto simp: closest_inv_def)
    with assms have "ct = PInf" "ct < PInf" by blast+
    then show ?thesis by simp
  qed
  then show ?thesis
    by (simp add: TraceRay_def TraceRay_part_000_def run)
qed

theorem TraceRay_background_witness:
  "TraceRay lit_scene O_camera sideways (Fin 1) PInf = \<lparr>cr = Fin 255, cg = Fin 255, cb = Fin 255\<rparr> \<and>
   TraceRay_part_000 lit_scene O_camera sideways (Fin 1) PInf = \<lparr>cr = Fin 0, cg = Fin 0, cb = Fin 0\<rparr>"
proof -
  have miss: "IntersectRaySphere O_camera sideways unit_sphere_red = (PInf, PInf)"
    by (simp add: IntersectRaySphere_def O_camera_def sideways_def unit_sphere_red_def
      dot_def subtract_def minus_jsnum_def Let_def)
  have h: "\<forall>s\<in>set (spheres lit_scene). \<forall>t\<in>set (roots O_camera sideways s).
      candidate (Fin 1) PInf t \<longrightarrow> t = PInf"
    by (simp add: lit_scene_def roots_def miss)
  from TraceRay_background [OF h] show ?thesis
    by (simp add: BACKGROUND_COLOR_def BACKGROUND_COLOR_part_000_def)
qed

section \<open>Projection and pixel writes\<close>

text \<open>
  C7. For every centered pixel coordinate and positive raster dimensions,
  \<open>CanvasToViewport\<close> returns exactly \<open>{x: x*Vw/Cw, y: y*Vh/Ch, z: d}\<close>. The vector is not
  normalized: at a finite coordinate \<open>(px, py)\<close> its length is
  \<open>sqrt((px/Cw)^2 + (py/Ch)^2 + 1)\<close>, which is 1 at the centre of the raster only.
\<close>

theorem CanvasToViewport_not_normalized:
  assumes "0 < width cv" "0 < height cv"
  shows "CanvasToViewport cv x y = \<lparr>vx = (x * Vw) / Cw cv, vy = (y * Vh) / Ch cv, vz = d\<rparr> \<and>
    length_vec (CanvasToViewport cv (Fin px) (Fin py))
      = Fin (sqrt ((px / real (width cv)) * (px / real (width cv))
                 + (py / real (height cv)) * (py / real (height cv)) + 1)) \<and>
    (length_vec (CanvasToViewport cv (Fin px) (Fin py)) = Fin 1 \<longleftrightarrow> px = 0 \<and> py = 0)"
proof -
  define u v where "u = px / real (width cv)" and "v = py / real (height cv)"
  have vec: "CanvasToViewport cv (Fin px) (Fin py) = \<lparr>vx = Fin u, vy = Fin v, vz = Fin 1\<rparr>"
    using assms by (simp add: CanvasToViewport_def Vw_def Vh_def d_def Cw_def Ch_def u_def v_def)
  have len: "length_vec (CanvasToViewport cv (Fin px) (Fin py)) = Fin (sqrt (u * u + v * v + 1))"
    using length_vec_Fin [of u v 1] by (simp add: vec)
  have "sqrt (u * u + v * v + 1) = 1 \<longleftrightarrow> u * u + v * v = 0"
    by (metis add_cancel_right_left real_sqrt_eq_1_iff)
  also have "\<dots> \<longleftrightarrow> u = 0 \<and> v = 0"
    using sq3_zero [of u v 0] by auto
  also have "\<dots> \<longleftrightarrow> px = 0 \<and> py = 0"
    using assms by (simp add: u_def v_def)
  finally have "length_vec (CanvasToViewport cv (Fin px) (Fin py)) = Fin 1 \<longleftrightarrow> px = 0 \<and> py = 0"
    by (simp add: len)
  with len show ?thesis
    by (simp add: CanvasToViewport_def u_def v_def)
qed

theorem CanvasToViewport_not_normalized_witness:
  "0 < width small_canvas \<and> 0 < height small_canvas \<and>
   CanvasToViewport small_canvas (Fin 2) (Fin 0) = \<lparr>vx = Fin 1, vy = Fin 0, vz = Fin 1\<rparr> \<and>
   length_vec (CanvasToViewport small_canvas (Fin 2) (Fin 0)) = Fin (sqrt 2) \<and>
   length_vec (CanvasToViewport small_canvas (Fin 0) (Fin 0)) = Fin 1"
proof -
  have h: "0 < width small_canvas" "0 < height small_canvas"
    by (simp_all add: small_canvas_def)
  note far = CanvasToViewport_not_normalized [OF h, of "Fin 2" "Fin 0" 2 0]
  note mid = CanvasToViewport_not_normalized [OF h, of "Fin 0" "Fin 0" 0 0]
  have e: "2 / real (width small_canvas) * (2 / real (width small_canvas))
      + 0 / real (height small_canvas) * (0 / real (height small_canvas)) + 1 = 2"
    by (simp add: small_canvas_def)
  from far [THEN conjunct1]
  have "CanvasToViewport small_canvas (Fin 2) (Fin 0) = \<lparr>vx = Fin 1, vy = Fin 0, vz = Fin 1\<rparr>"
    by (simp add: small_canvas_def Vw_def Vh_def d_def Cw_def Ch_def)
  moreover from far [THEN conjunct2, THEN conjunct1]
  have "length_vec (CanvasToViewport small_canvas (Fin 2) (Fin 0)) = Fin (sqrt 2)"
    by (simp only: e)
  moreover from mid [THEN conjunct2, THEN conjunct2]
  have "length_vec (CanvasToViewport small_canvas (Fin 0) (Fin 0)) = Fin 1"
    by simp
  ultimately show ?thesis
    using h by blast
qed

lemma js_not_le_zero: "\<not> Fin 0 \<le> a \<Longrightarrow> a < Fin 0 \<or> a = NaN"
  by (cases a) auto

lemma js_not_less_ge: "\<not> a < (b::jsnum) \<Longrightarrow> b \<le> a \<or> a = NaN \<or> b = NaN"
  by (cases a; cases b) auto

lemma js_NaN_arith [simp]: "NaN + a = NaN" "a + NaN = NaN" "NaN * a = NaN" "a * NaN = NaN"
  "NaN - a = NaN" "a - NaN = NaN"
  by (cases a; simp add: minus_jsnum_def)+

lemma typed_array_set_NaN: "typed_array_set arr NaN v = arr"
  by (simp add: typed_array_set_def)

text \<open>
  C9. For every centered coordinate whose raster coordinate \<open>(px, py)\<close> is outside
  \<open>[0, Cw) \<times> [0, Ch)\<close>, \<open>PutPixel\<close> returns (it is a total function: nothing is raised)
  and leaves the pixel buffer as it was: the guard returns at once, and a coordinate that
  is \<open>NaN\<close>, which the guard lets through, makes the index \<open>NaN\<close>, where a store
  into the typed array does nothing.
\<close>

theorem PutPixel_out_of_bounds:
  assumes "\<not> (Fin 0 \<le> PutPixel_px cv x \<and> PutPixel_px cv x < Cw cv \<and>
              Fin 0 \<le> PutPixel_py cv y \<and> PutPixel_py cv y < Ch cv)"
  shows "PutPixel cv imgData x y col = imgData"
proof (cases "PutPixel_px cv x < Fin 0 \<or> Cw cv \<le> PutPixel_px cv x \<or>
              PutPixel_py cv y < Fin 0 \<or> Ch cv \<le> PutPixel_py cv y")
  case True
  then show ?thesis
    by (auto simp: PutPixel_def Let_def)
next
  case False
  with assms have "PutPixel_px cv x = NaN \<or> PutPixel_py cv y = NaN"
    using js_not_le_zero [of "PutPixel_px cv x"] js_not_le_zero [of "PutPixel_py cv y"]
      js_not_less_ge [of "PutPixel_px cv x" "Cw cv"] js_not_less_ge [of "PutPixel_py cv y" "Ch cv"]
    by (auto simp: Cw_def Ch_def)
  then have "(PutPixel_px cv x + PutPixel_py cv y * Cw cv) * Fin 4 = NaN"
    by auto
  then show ?thesis
    by (simp add: PutPixel_def Let_def typed_array_set_NaN)
qed

theorem PutPixel_out_of_bounds_witness:
  "\<not> PutPixel_px small_canvas (Fin 1) < Cw small_canvas \<and>
   PutPixel small_canvas (replicate 16 0) (Fin 1) (Fin 0) BACKGROUND_COLOR = replicate 16 0"
proof -
  have h: "\<not> PutPixel_px small_canvas (Fin 1) < Cw small_canvas"
    by (simp add: PutPixel_px_def Cw_def small_canvas_def)
  then have "\<not> (Fin 0 \<le> PutPixel_px small_canvas (Fin 1) \<and>
               PutPixel_px small_canvas (Fin 1) < Cw small_canvas \<and>
               Fin 0 \<le> PutPixel_py small_canvas (Fin 0) \<and>
               PutPixel_py small_canvas (Fin 0) < Ch small_canvas)"
    by simp
  from PutPixel_out_of_bounds [OF this] h show ?thesis
    by blast
qed

lemma typed_array_set_nat:
  "n < length arr \<Longrightarrow> typed_array_set arr (Fin (real n)) v = arr[n := ToUint8Clamp v]"
  by (simp add: typed_array_set_def)

text \<open>
  C8. \<open>PutPixel\<close> maps the centered coordinate \<open>(x, y)\<close> to the raster coordinates
  \<open>px = Cw/2 + x\<close> and \<open>py = Ch/2 - y\<close>: the centre \<open>(0, 0)\<close> goes to
  \<open>(Cw/2, Ch/2)\<close>, the row of \<open>y = 1\<close> has a smaller index than the row of \<open>y = -1\<close>,
  and the centered coordinate of the raster pixel in column \<open>col\<close> and row \<open>row\<close> is
  written to the four bytes of that pixel, at \<open>4 * (col + row * Cw)\<close>.
\<close>

theorem PutPixel_raster_mapping:
  assumes "col < width cv" "row < height cv" "length imgData = 4 * width cv * height cv"
  shows "PutPixel_px cv x = Cw cv / Fin 2 + x \<and>
         PutPixel_py cv y = Ch cv / Fin 2 - y \<and>
         PutPixel_px cv (Fin 0) = Fin (real (width cv) / 2) \<and>
         PutPixel_py cv (Fin 0) = Fin (real (height cv) / 2) \<and>
         PutPixel_py cv (Fin 1) < PutPixel_py cv (Fin (- 1)) \<and>
         PutPixel_px cv (Fin (real col - real (width cv) / 2)) = Fin (real col) \<and>
         PutPixel_py cv (Fin (real (height cv) / 2 - real row)) = Fin (real row) \<and>
         PutPixel cv imgData (Fin (real col - real (width cv) / 2))
             (Fin (real (height cv) / 2 - real row)) c
           = imgData[4 * (col + row * width cv) := ToUint8Clamp (cr c),
                     4 * (col + row * width cv) + 1 := ToUint8Clamp (cg c),
                     4 * (col + row * width cv) + 2 := ToUint8Clamp (cb c),
                     4 * (col + row * width cv) + 3 := 255]"
proof -
  define w h where "w = width cv" and "h = height cv"
  define n where "n = 4 * (col + row * w)"
  have px: "PutPixel_px cv (Fin (real col - real w / 2)) = Fin (real col)"
    and py: "PutPixel_py cv (Fin (real h / 2 - real row)) = Fin (real row)"
    by (simp_all add: PutPixel_px_def PutPixel_py_def Cw_def Ch_def minus_jsnum_def w_def h_def)
  have "col + row * w < w * h"
  proof -
    have "col + row * w < w + row * w" using assms(1) by (simp add: w_def)
    also have "\<dots> = (row + 1) * w" by simp
    also have "\<dots> \<le> h * w" using assms(2) by (intro mult_le_mono1) (simp add: h_def)
    finally show ?thesis by (simp add: mult.commute)
  qed
  then have bound: "n + 3 < length imgData"
    using assms(3) by (simp add: n_def w_def h_def)
  have idx: "(Fin (real col) + Fin (real row) * Cw cv) * Fin 4 = Fin (real n)"
    by (simp add: Cw_def n_def w_def algebra_simps)
  have inb: "\<not> (Fin (real col) < Fin 0 \<or> Cw cv \<le> Fin (real col) \<or>
                Fin (real row) < Fin 0 \<or> Ch cv \<le> Fin (real row))"
    using assms(1,2) by (simp add: Cw_def Ch_def)
  have k: "typed_array_set arr (Fin (real n)) v = arr[n := ToUint8Clamp v]"
    "typed_array_set arr (Fin (real n + 1)) v = arr[n + 1 := ToUint8Clamp v]"
    "typed_array_set arr (Fin (real n + 2)) v = arr[n + 2 := ToUint8Clamp v]"
    "typed_array_set arr (Fin (real n + 3)) v = arr[n + 3 := ToUint8Clamp v]"
    if "length arr = length imgData" for arr v
    using bound that
      typed_array_set_nat [of n arr v] typed_array_set_nat [of "n + 1" arr v]
      typed_array_set_nat [of "n + 2" arr v] typed_array_set_nat [of "n + 3" arr v]
    by (simp_all add: add.commute)
  have clamp: "ToUint8Clamp (Fin 255) = 255"
    by (simp add: ToUint8Clamp_def)
  have "PutPixel cv imgData (Fin (real col - real w / 2)) (Fin (real h / 2 - real row)) c
           = imgData[n := ToUint8Clamp (cr c), n + 1 := ToUint8Clamp (cg c),
                     n + 2 := ToUint8Clamp (cb c), n + 3 := 255]"
    using bound inb
    by (simp add: PutPixel_def Let_def px py idx k clamp)
  then show ?thesis
    using px py
    by (simp add: n_def w_def h_def PutPixel_px_def PutPixel_py_def Cw_def Ch_def minus_jsnum_def)
qed

theorem PutPixel_raster_mapping_witness:
  "(1::nat) < width small_canvas \<and> (0::nat) < height small_canvas \<and>
   length (replicate 16 (0::8 word)) = 4 * width small_canvas * height small_canvas \<and>
   PutPixel_px small_canvas (Fin 0) = Fin 1 \<and>
   PutPixel_py small_canvas (Fin 1) = Fin 0 \<and>
   PutPixel small_canvas (replicate 16 0) (Fin 0) (Fin 1) BACKGROUND_COLOR
     = [0, 0, 0, 0, 255, 255, 255, 255, 0, 0, 0, 0, 0, 0, 0, 0]"
proof -
  have h: "(1::nat) < width small_canvas" "(0::nat) < height small_canvas"
    "length (replicate 16 (0::8 word)) = 4 * width small_canvas * height small_canvas"
    by (simp_all add: small_canvas_def)
  have x: "Fin (real (1::nat) - real (width small_canvas) / 2) = Fin 0"
    and y: "Fin (real (height small_canvas) / 2 - real (0::nat)) = Fin 1"
    by (simp_all add: small_canvas_def)
  have clamp: "ToUint8Clamp (Fin 255) = 255"
    by (simp add: ToUint8Clamp_def)
  have upd: "(replicate 16 (0::8 word))[4 := 255, 5 := 255, 6 := 255, 7 := 255]
      = [0, 0, 0, 0, 255, 255, 255, 255, 0, 0, 0, 0, 0, 0, 0, 0]"
    by code_simp
  note inst = PutPixel_raster_mapping [OF h, of "Fin 0" "Fin 1" BACKGROUND_COLOR, unfolded x y]
  note rest = inst [THEN conjunct2, THEN conjunct2, THEN conjunct2, THEN conjunct2, THEN conjunct2]
  from rest [THEN conjunct1] have "PutPixel_px small_canvas (Fin 0) = Fin 1"
    by simp
  moreover from rest [THEN conjunct2, THEN conjunct1]
  have "PutPixel_py small_canvas (Fin 1) = Fin 0"
    by simp
  moreover from rest [THEN conjunct2, THEN conjunct2]
  have "PutPixel small_canvas (replicate 16 0) (Fin 0) (Fin 1) BACKGROUND_COLOR
     = (replicate 16 (0::8 word))[4 := 255, 5 := 255, 6 := 255, 7 := 255]"
    by (simp add: small_canvas_def BACKGROUND_COLOR_def clamp)
  ultimately show ?thesis
    using h upd by simp
qed

end
